theory Spec2Isabelle
  imports Main
begin

section \<open>Values of the credential's claims\<close>

text \<open>
  The claims of a verified credential are a \<^verbatim>\<open>Record<string, unknown>\<close>. The values that
  matter to the scripts are numbers, strings and booleans; everything else is null,
  undefined (also what reading an absent key gives) or some object.

  A number is either integer-valued, \<open>Integer n\<close> (negative zero counts as \<open>0\<close>), or not
  (a fraction, NaN, an infinity); of the latter the scripts only ever use the text that
  string conversion gives, which \<open>NonInteger\<close> carries.
\<close>

datatype jsnum = Integer int | NonInteger string

datatype jsval = JNum jsnum | JStr string | JBool bool | JNull | JUndefined | JObject

text \<open>The entries of the claims object, in enumeration order.\<close>

type_synonym claims = "(string \<times> jsval) list"

definition getClaim :: "claims \<Rightarrow> string \<Rightarrow> jsval" where
  "getClaim claims k = (case map_of claims k of None \<Rightarrow> JUndefined | Some v \<Rightarrow> v)"

text \<open>The left operand of \<^verbatim>\<open>??\<close> is dropped exactly when it is null or undefined.\<close>

fun nullish :: "jsval \<Rightarrow> bool" where
  "nullish JNull = True"
| "nullish JUndefined = True"
| "nullish _ = False"

subsection \<open>Decimal numerals\<close>

definition digit_char :: "nat \<Rightarrow> char" where
  "digit_char k = ''0123456789'' ! k"

function show_nat :: "nat \<Rightarrow> string" where
  "show_nat n = (if n < 10 then [digit_char n] else show_nat (n div 10) @ [digit_char (n mod 10)])"
  by pat_completeness auto
termination
  by (relation "measure (\<lambda>n. n)") auto

declare show_nat.simps [simp del]

text \<open>
  String conversion of a number, as a template literal performs it: an integer is written
  in decimal (the notation changes from \<open>10^21\<close> on, far beyond any band index).
\<close>

fun numToString :: "jsnum \<Rightarrow> string" where
  "numToString (Integer i) = (if i < 0 then ''-'' @ show_nat (nat (- i)) else show_nat (nat i))"
| "numToString (NonInteger r) = r"

text \<open>\<^verbatim>\<open>\d\<close>, and the integer that a string of decimal digits writes.\<close>

definition isDigit :: "char \<Rightarrow> bool" where
  "isDigit c = (c \<in> set ''0123456789'')"

definition digitVal :: "char \<Rightarrow> nat" where
  "digitVal c = length (takeWhile (\<lambda>d. d \<noteq> c) ''0123456789'')"

definition mathInt :: "string \<Rightarrow> nat" where
  "mathInt ds = foldl (\<lambda>acc c. acc * 10 + digitVal c) 0 ds"

subsection \<open>Numbers are doubles\<close>

text \<open>
  \<^verbatim>\<open>parseInt(digits, 10)\<close> returns a number, that is a double: the integer written by the
  digits when a double can hold it, else the nearest double (a tie goes to the even
  significand), and \<open>Infinity\<close> from \<open>2^1024 - 2^970\<close> on. Every integer up to \<open>2^53\<close> is a
  double. \<open>bitLength m\<close> is the number of binary digits of \<open>m\<close>; a double keeps the
  leading 53 of them. (The language standard lets an engine read the digits after the
  twentieth significant one as zeros; the model rounds the whole numeral. Up to \<open>2^53\<close>,
  sixteen digits, the two agree.)
\<close>

datatype jsdouble = Finite int | PosInfinity

function bitLength :: "nat \<Rightarrow> nat" where
  "bitLength m = (if m = 0 then 0 else Suc (bitLength (m div 2)))"
  by pat_completeness auto
termination
  by (relation "measure (\<lambda>m. m)") auto

declare bitLength.simps [simp del]

definition roundToDouble :: "nat \<Rightarrow> jsdouble" where
  "roundToDouble m =
     (if m < 2 ^ 53 then Finite (int m)
      else
        (let e = bitLength m - 53;
             q = m div 2 ^ e;
             r = m mod 2 ^ e;
             half = 2 ^ (e - 1);
             q' = (if half < r \<or> (r = half \<and> odd q) then q + 1 else q)
         in if q' * 2 ^ e < 2 ^ 1024 then Finite (int (q' * 2 ^ e)) else PosInfinity))"

definition parseInt10 :: "string \<Rightarrow> jsdouble" where
  "parseInt10 ds = roundToDouble (mathInt ds)"

text \<open>\<^verbatim>\<open>a <= b\<close> for an integer \<open>a\<close> and a number \<open>b\<close> that \<open>parseInt10\<close> returned.\<close>

fun le_double :: "int \<Rightarrow> jsdouble \<Rightarrow> bool" where
  "le_double a (Finite b) = (a \<le> b)"
| "le_double a PosInfinity = True"

section \<open>Policy specifications\<close>

text \<open>
  The interface \<^verbatim>\<open>PolicyLike\<close> of the verifier scripts; an optional field is an \<open>option\<close>,
  a field the interface requires is present. The credit script declares the same interface
  without the band table, which it never reads.
\<close>

record band =
  label :: string

record derive =
  kind :: string
  bands :: "band list option"

record policy_output =
  name :: string
  output_type :: string
  derive :: derive

record metadata =
  title :: "string option"

record subject =
  subject_type :: string

record disclosure =
  exposeClaims :: "string list option"

record validity =
  ttl :: "string option"

record PolicyLike =
  policy_id :: string
  version :: string
  metadata :: "metadata option"
  subject :: subject
  outputs :: "policy_output list"
  disclosure :: "disclosure option"
  validity :: "validity option"

text \<open>Every \<^verbatim>\<open>process.exit(1)\<close> of the verifier scripts, and an exception nobody catches.\<close>

datatype fatal =
    UnsupportedVersion string
  | UnexpectedSubject string
  | MissingOutput string
  | ProofExpired
  | SharedProofRevoked
  | SharedProofExpired
  | NoPolicyAssociated
  | IssueFailed string
  | CredentialInvalid "string option"
  | VerificationError string
  | Uncaught string

definition startsWith :: "string \<Rightarrow> string \<Rightarrow> bool" where
  "startsWith s p = (take (length p) s = p)"

fun join_with :: "string \<Rightarrow> string list \<Rightarrow> string" where
  "join_with sep [] = []"
| "join_with sep [x] = x"
| "join_with sep (x # y # ys) = x @ sep @ join_with sep (y # ys)"

text \<open>\<^verbatim>\<open>policy.disclosure?.exposeClaims?.includes(claim)\<close>, undefined counting as false.\<close>

definition isDisclosed :: "PolicyLike \<Rightarrow> string \<Rightarrow> bool" where
  "isDisclosed policy claim =
     (case disclosure policy of
        None \<Rightarrow> False
      | Some d \<Rightarrow> (case exposeClaims d of None \<Rightarrow> False | Some cs \<Rightarrow> claim \<in> set cs))"

definition quoted :: "string \<Rightarrow> string" where
  "quoted s = [CHR 0x22] @ s @ [CHR 0x22]"

subsection \<open>The validator of the vehicle-risk verifier\<close>

text \<open>
  \<open>validatePolicy\<close> either exits the process (\<open>Inl\<close>) or returns true; the model returns
  the findings it has collected and prints (\<open>Inr\<close>).
\<close>

definition validatePolicy_risk :: "PolicyLike \<Rightarrow> fatal + string list" where
  "validatePolicy_risk policy =
     (if startsWith (version policy) ''0.'' then
        (let r1 = [''Version: '' @ version policy] in
         if subject_type (subject policy) = ''vehicle'' then
           (let r2 = r1 @ [''Subject type: '' @ subject_type (subject policy)] in
            case find (\<lambda>o'. name o' = ''riskBand'') (outputs policy) of
              Some riskOutput \<Rightarrow>
                (let r3 = r2 @ [''Has '' @ quoted (name riskOutput) @ '' output (''
                                  @ output_type riskOutput @ '')''];
                     r4 = (if kind (derive riskOutput) = ''BAND'' then
                             (case bands (derive riskOutput) of
                                Some bs \<Rightarrow>
                                  r3 @ [''Uses BAND derivation'',
                                        ''Risk bands: '' @ join_with '', '' (map label bs)]
                              | None \<Rightarrow> r3 @ [''Uses BAND derivation''])
                           else r3);
                     r5 = (if isDisclosed policy ''riskBand''
                           then r4 @ [''Risk band is disclosed''] else r4)
                 in Inr r5)
            | None \<Rightarrow> Inl (MissingOutput ''riskBand''))
         else Inl (UnexpectedSubject (subject_type (subject policy))))
      else Inl (UnsupportedVersion (version policy)))"

subsection \<open>The validator of the credit verifier\<close>

definition validatePolicy_credit :: "PolicyLike \<Rightarrow> fatal + string list" where
  "validatePolicy_credit policy =
     (if startsWith (version policy) ''0.'' then
        (let r1 = [''Version: '' @ version policy];
             r2 = r1 @ [''Subject type: '' @ subject_type (subject policy)] in
         case find (\<lambda>o'. name o' = ''approved'') (outputs policy) of
           Some approvedOutput \<Rightarrow>
             (let r3 = r2 @ [''Has '' @ quoted (name approvedOutput) @ '' output (''
                               @ output_type approvedOutput @ '')''];
                  r4 = (if kind (derive approvedOutput) = ''PASS_FAIL''
                        then r3 @ [''Uses PASS_FAIL derivation''] else r3);
                  r5 = (if isDisclosed policy ''approved''
                        then r4 @ [''Approval status is disclosed''] else r4)
              in Inr r5)
         | None \<Rightarrow> Inl (MissingOutput ''approved''))
      else Inl (UnsupportedVersion (version policy)))"

section \<open>Reference scorer of the vehicle-risk demo\<close>

text \<open>
  The demo script and the prove-job script of the vehicle-risk example both compute, for
  display only, the score the circuit is expected to produce:
  \<^verbatim>\<open>
  let expectedScore = 50;
  if (mileage <= 3000) expectedScore += 25;   // low_mileage
  if (mileage <= 5000) expectedScore += 15;   // moderate_mileage
  if (speedMax < 100)  expectedScore += 10;   // no_extreme_speed
  expectedScore = Math.min(100, expectedScore);
  \<close>
  The three inputs are the numbers read from the telemetry strings (u32, u32 and u16 in the
  policy), modelled as integers.
\<close>

record vehicle_inputs =
  mileage_90d :: int
  data_points :: int
  speed_max :: int

definition expectedScore_demo :: "vehicle_inputs \<Rightarrow> int" where
  "expectedScore_demo inp =
     (let mileage = mileage_90d inp;
          speedMax = speed_max inp;
          s0 = 50;
          s1 = (if mileage \<le> 3000 then s0 + 25 else s0);
          s2 = (if mileage \<le> 5000 then s1 + 15 else s1);
          s3 = (if speedMax < 100 then s2 + 10 else s2)
      in min 100 s3)"

definition expectedBand :: "int \<Rightarrow> string" where
  "expectedBand expectedScore =
     (if expectedScore \<ge> 71 then ''LOW''
      else if expectedScore \<ge> 41 then ''MEDIUM''
      else ''HIGH'')"

text \<open>
  The prove-job script computes the same score and collects, next to it, one line of
  breakdown per bonus that applied (the script writes the comparison in these lines with
  the sign for "at most"; the model spells it \<open><=\<close>).
\<close>

definition expectedScore_prove :: "vehicle_inputs \<Rightarrow> int \<times> string list" where
  "expectedScore_prove inp =
     (let mileage = mileage_90d inp;
          speedMax = speed_max inp;
          st0 = (50, [''Baseline: 50'']);
          st1 = (if mileage \<le> 3000
                 then (fst st0 + 25, snd st0 @ [''Low mileage (<=3,000): +25'']) else st0);
          st2 = (if mileage \<le> 5000
                 then (fst st1 + 15, snd st1 @ [''Moderate mileage (<=5,000): +15'']) else st1);
          st3 = (if speedMax < 100
                 then (fst st2 + 10, snd st2 @ [''No extreme speed (<100 mph): +10'']) else st2)
      in (min 100 (fst st3), snd st3))"

text \<open>The insufficient-data warning both scripts print; it does not touch the score.\<close>

definition insufficientData :: "vehicle_inputs \<Rightarrow> bool" where
  "insufficientData inp = (data_points inp < 100)"

section \<open>Freshness of a proof\<close>

text \<open>
  The two verifier scripts carry the same \<open>checkFreshness\<close>, apart from the default
  validity: \<^verbatim>\<open>"P90D"\<close> and 90 days for the vehicle-risk verifier, \<^verbatim>\<open>"P30D"\<close> and 30 days for
  the credit verifier.

  A timestamp of the API (a non-empty ISO-8601 string) is represented by what
  \<^verbatim>\<open>new Date(s).getTime()\<close> makes of it, the milliseconds since the epoch; a nullable
  timestamp is an \<open>option\<close>, and only null is falsy. Differences of timestamps and ages in
  days are integers that a double holds exactly.
\<close>

datatype domain = VehicleRisk | Credit

type_synonym timestamp = int

fun defaultTtlString :: "domain \<Rightarrow> string" where
  "defaultTtlString VehicleRisk = ''P90D''"
| "defaultTtlString Credit = ''P30D''"

fun defaultTtlDays :: "domain \<Rightarrow> int" where
  "defaultTtlDays VehicleRisk = 90"
| "defaultTtlDays Credit = 30"

text \<open>
  \<^verbatim>\<open>ttlString.match(/^P(\d+)D$/i)\<close> and \<^verbatim>\<open>ttlString.match(/^(\d+)d$/i)\<close>: the first capture
  group when the whole string matches, \<open>None\<close> when \<open>match\<close> returns null.
\<close>

definition isoMatch :: "string \<Rightarrow> string option" where
  "isoMatch s =
     (case s of
        [] \<Rightarrow> None
      | c # rest \<Rightarrow>
          if (c = CHR ''P'' \<or> c = CHR ''p'') \<and> 2 \<le> length rest
             \<and> (last rest = CHR ''D'' \<or> last rest = CHR ''d'')
             \<and> list_all isDigit (butlast rest)
          then Some (butlast rest) else None)"

definition simpleMatch :: "string \<Rightarrow> string option" where
  "simpleMatch s =
     (if 2 \<le> length s \<and> (last s = CHR ''d'' \<or> last s = CHR ''D'')
         \<and> list_all isDigit (butlast s)
      then Some (butlast s) else None)"

text \<open>\<^verbatim>\<open>policy?.validity?.ttl\<close>\<close>

definition policyTtl :: "PolicyLike option \<Rightarrow> string option" where
  "policyTtl policy =
     (case policy of
        None \<Rightarrow> None
      | Some p \<Rightarrow> (case validity p of None \<Rightarrow> None | Some v \<Rightarrow> ttl v))"

definition ttlDays :: "domain \<Rightarrow> PolicyLike option \<Rightarrow> jsdouble" where
  "ttlDays d policy =
     (let ttlString = (case policyTtl policy of None \<Rightarrow> defaultTtlString d | Some t \<Rightarrow> t) in
      case isoMatch ttlString of
        Some g \<Rightarrow> parseInt10 g
      | None \<Rightarrow>
          (case simpleMatch ttlString of
             Some g \<Rightarrow> parseInt10 g
           | None \<Rightarrow> Finite (defaultTtlDays d)))"

definition provedAt :: "timestamp option \<Rightarrow> timestamp \<Rightarrow> timestamp" where
  "provedAt completedAt fallbackDate =
     (case completedAt of Some t \<Rightarrow> t | None \<Rightarrow> fallbackDate)"

definition ageDays :: "timestamp \<Rightarrow> timestamp \<Rightarrow> int" where
  "ageDays now proved = (now - proved) div (24 * 60 * 60 * 1000)"

text \<open>\<open>now\<close> is the value of \<^verbatim>\<open>Date.now()\<close> when the check runs.\<close>

definition checkFreshness ::
    "domain \<Rightarrow> timestamp \<Rightarrow> timestamp option \<Rightarrow> timestamp \<Rightarrow> PolicyLike option \<Rightarrow> fatal + unit" where
  "checkFreshness d now completedAt fallbackDate policy =
     (if le_double (ageDays now (provedAt completedAt fallbackDate)) (ttlDays d policy)
      then Inr () else Inl ProofExpired)"

section \<open>Interpreting the disclosed claim\<close>

subsection \<open>Risk band\<close>

definition RISK_BANDS :: "string list" where
  "RISK_BANDS = [''HIGH'', ''MEDIUM'', ''LOW'']"

text \<open>
  Reading an array at a number: the element when the number is an integer within the
  bounds, undefined (\<open>None\<close>) otherwise.
\<close>

fun arrayGet :: "'a list \<Rightarrow> jsnum \<Rightarrow> 'a option" where
  "arrayGet xs (Integer i) = (if 0 \<le> i \<and> i < int (length xs) then Some (xs ! nat i) else None)"
| "arrayGet xs (NonInteger r) = None"

text \<open>
  The claim read by \<open>resolveBandLabel\<close> and the index made of it. \<open>toNumber\<close> stands for
  the built-in \<^verbatim>\<open>Number\<close> on strings.
\<close>

definition riskBandClaim :: "claims \<Rightarrow> jsval" where
  "riskBandClaim claims =
     (if nullish (getClaim claims ''riskBand'') then getClaim claims ''outputValue''
      else getClaim claims ''riskBand'')"

definition bandIndex :: "(string \<Rightarrow> jsnum) \<Rightarrow> claims \<Rightarrow> jsnum" where
  "bandIndex toNumber claims =
     (case riskBandClaim claims of
        JNum n \<Rightarrow> n
      | JStr s \<Rightarrow> toNumber s
      | _ \<Rightarrow> Integer 0)"

text \<open>\<^verbatim>\<open>policy?.outputs?.[0]?.derive?.bands\<close>\<close>

definition firstOutputBands :: "PolicyLike option \<Rightarrow> band list option" where
  "firstOutputBands policy =
     (case policy of
        None \<Rightarrow> None
      | Some p \<Rightarrow> (case outputs p of [] \<Rightarrow> None | out # _ \<Rightarrow> bands (derive out)))"

definition resolveBandLabel :: "(string \<Rightarrow> jsnum) \<Rightarrow> claims \<Rightarrow> PolicyLike option \<Rightarrow> string" where
  "resolveBandLabel toNumber claims policy =
     (let idx = bandIndex toNumber claims in
      case (case firstOutputBands policy of None \<Rightarrow> None | Some bs \<Rightarrow> arrayGet bs idx) of
        Some b \<Rightarrow> label b
      | None \<Rightarrow>
          (case arrayGet RISK_BANDS idx of
             Some l \<Rightarrow> l
           | None \<Rightarrow> ''Band '' @ numToString idx))"

text \<open>
  \<^verbatim>\<open>Number\<close> on the strings the examples below pass: an optional minus sign and decimal
  digits. (The built-in accepts more: white space, a fraction, an exponent, hexadecimal.
  The statements about \<open>resolveBandLabel\<close> hold for whatever \<open>toNumber\<close> is.)
\<close>

definition Number_decimal :: "string \<Rightarrow> jsnum" where
  "Number_decimal s =
     (if s \<noteq> [] \<and> list_all isDigit s then
        (case parseInt10 s of
           Finite n \<Rightarrow> Integer n
         | PosInfinity \<Rightarrow> NonInteger ''Infinity'')
      else if 2 \<le> length s \<and> hd s = CHR ''-'' \<and> list_all isDigit (tl s) then
        (case parseInt10 (tl s) of
           Finite n \<Rightarrow> Integer (- n)
         | PosInfinity \<Rightarrow> NonInteger ''-Infinity'')
      else NonInteger ''NaN'')"

text \<open>What \<open>displayResults\<close> of the vehicle-risk verifier prints for the claims.\<close>

datatype claim_line =
    BandLine string jsval string
  | ApprovalLine string bool
  | PlainLine string jsval

definition recommendation :: "string \<Rightarrow> string option" where
  "recommendation bandLabel =
     (if bandLabel = ''LOW'' then Some ''APPROVE''
      else if bandLabel = ''MEDIUM'' then Some ''REVIEW''
      else if bandLabel = ''HIGH'' then Some ''CAUTION''
      else None)"

record risk_report =
  claim_lines :: "claim_line list"
  risk_band :: string
  guidance :: "string option"

definition displayResults_risk ::
    "(string \<Rightarrow> jsnum) \<Rightarrow> claims \<Rightarrow> PolicyLike option \<Rightarrow> risk_report" where
  "displayResults_risk toNumber claims policy =
     (let ls = map (\<lambda>(key, v).
                  if key = ''riskBand'' \<or> key = ''outputValue''
                  then BandLine key v (resolveBandLabel toNumber claims policy)
                  else PlainLine key v) claims;
          bandLabel = resolveBandLabel toNumber claims policy
      in \<lparr>claim_lines = ls, risk_band = bandLabel, guidance = recommendation bandLabel\<rparr>)"

subsection \<open>Approval\<close>

text \<open>\<^verbatim>\<open>value === 1 || value === true || value === "1"\<close>: strict equality never converts.\<close>

fun isApproved :: "jsval \<Rightarrow> bool" where
  "isApproved (JNum n) = (n = Integer 1)"
| "isApproved (JBool b) = b"
| "isApproved (JStr s) = (s = ''1'')"
| "isApproved _ = False"

definition displayResults_credit :: "claims \<Rightarrow> claim_line list" where
  "displayResults_credit claims =
     map (\<lambda>(key, v).
            if key = ''approved'' \<or> key = ''outputValue''
            then ApprovalLine key (isApproved v)
            else PlainLine key v) claims"

section \<open>Verifying a shared proof\<close>

text \<open>
  What the verifier reads from the API client, and the clock. A call of the client either
  throws (\<open>Inl\<close>, with the message) or returns. The clock is read twice: by the expiry
  check of the shared proof and by the freshness check.
\<close>

record shared_prove_job =
  circuitName :: string
  policyId :: "string option"
  completedAt :: "timestamp option"

record SharedProof =
  proveJobId :: string
  sharingOrgId :: string
  createdAt :: timestamp
  share_note :: "string option"
  revokedAt :: "timestamp option"
  expiresAt :: "timestamp option"
  policySpec :: "PolicyLike option"
  proveJob :: shared_prove_job

record Credential =
  credentialId :: string
  format :: string
  issuedAt :: string
  jwt :: string

record VerifyResult =
  valid :: bool
  issuer :: string
  credential_subject :: "string option"
  error_message :: "string option"
  verified_claims :: claims

record world =
  getSharedProof :: "string \<Rightarrow> string + SharedProof"
  getPolicy :: "string \<Rightarrow> string + PolicyLike option"
  listPolicies :: "string + PolicyLike list"
  issueProofCredential :: "string \<Rightarrow> string + Credential"
  verifyCredential :: "string \<Rightarrow> string + VerifyResult"
  nowAtExpiryCheck :: timestamp
  nowAtFreshness :: timestamp

text \<open>
  The steps a run announces on the console and the calls of the client it makes for the
  policy, in the order in which they happen.
\<close>

datatype step =
    FetchSharedProof
  | GetPolicySpecification
  | CallGetPolicy string
  | CallListPolicies
  | ValidatePolicy
  | CheckFreshness nat
  | IssueCredential nat
  | VerifyCredential nat
  | ProcessResult nat

datatype report = RiskReport risk_report | CreditReport "claim_line list"

fun validatePolicy :: "domain \<Rightarrow> PolicyLike \<Rightarrow> fatal + string list" where
  "validatePolicy VehicleRisk policy = validatePolicy_risk policy"
| "validatePolicy Credit policy = validatePolicy_credit policy"

fun displayResults ::
    "domain \<Rightarrow> (string \<Rightarrow> jsnum) \<Rightarrow> claims \<Rightarrow> PolicyLike option \<Rightarrow> report" where
  "displayResults VehicleRisk toNumber claims policy =
     RiskReport (displayResults_risk toNumber claims policy)"
| "displayResults Credit toNumber claims policy = CreditReport (displayResults_credit claims)"

text \<open>
  Step 2 of the shared mode: the policy embedded in the shared proof, else
  \<^verbatim>\<open>client.getPolicy\<close>, else a scan of \<^verbatim>\<open>client.listPolicies()\<close>. Neither call is guarded by a
  \<^verbatim>\<open>try\<close>.
\<close>

definition resolveSharedPolicy ::
    "world \<Rightarrow> SharedProof \<Rightarrow> string \<Rightarrow> step list \<times> (fatal + PolicyLike option)" where
  "resolveSharedPolicy w sharedProof pid =
     (case policySpec sharedProof of
        Some p \<Rightarrow> ([], Inr (Some p))
      | None \<Rightarrow>
          (case getPolicy w pid of
             Inl e \<Rightarrow> ([CallGetPolicy pid], Inl (Uncaught e))
           | Inr (Some p) \<Rightarrow> ([CallGetPolicy pid], Inr (Some p))
           | Inr None \<Rightarrow>
               (case listPolicies w of
                  Inl e \<Rightarrow> ([CallGetPolicy pid, CallListPolicies], Inl (Uncaught e))
                | Inr allPolicies \<Rightarrow>
                    ([CallGetPolicy pid, CallListPolicies],
                     Inr (find (\<lambda>p. policy_id p = pid) allPolicies)))))"

text \<open>Issuing the credential, verifying it and reporting, numbered from \<open>n\<close>.\<close>

definition issueAndReport ::
    "domain \<Rightarrow> (string \<Rightarrow> jsnum) \<Rightarrow> world \<Rightarrow> string \<Rightarrow> PolicyLike option \<Rightarrow> nat
       \<Rightarrow> step list \<times> (fatal + report)" where
  "issueAndReport d toNumber w jobId policy n =
     (case issueProofCredential w jobId of
        Inl m \<Rightarrow> ([IssueCredential n], Inl (IssueFailed m))
      | Inr credential \<Rightarrow>
          (case verifyCredential w (jwt credential) of
             Inl m \<Rightarrow> ([IssueCredential n, VerifyCredential (n + 1)], Inl (VerificationError m))
           | Inr verifyResult \<Rightarrow>
               if valid verifyResult then
                 ([IssueCredential n, VerifyCredential (n + 1), ProcessResult (n + 2)],
                  Inr (displayResults d toNumber (verified_claims verifyResult) policy))
               else
                 ([IssueCredential n, VerifyCredential (n + 1)],
                  Inl (CredentialInvalid (error_message verifyResult)))))"

text \<open>The freshness check and everything after it.\<close>

definition freshnessOnwards ::
    "domain \<Rightarrow> (string \<Rightarrow> jsnum) \<Rightarrow> world \<Rightarrow> SharedProof \<Rightarrow> PolicyLike option \<Rightarrow> bool
       \<Rightarrow> step list \<times> (fatal + report)" where
  "freshnessOnwards d toNumber w sharedProof policy policyValidated =
     (let freshnessStep = (if policyValidated then 4 else 3) in
      case checkFreshness d (nowAtFreshness w) (completedAt (proveJob sharedProof))
             (createdAt sharedProof) policy of
        Inl e \<Rightarrow> ([CheckFreshness freshnessStep], Inl e)
      | Inr u \<Rightarrow>
          (let (tr, res) = issueAndReport d toNumber w (proveJobId sharedProof) policy
                             (freshnessStep + 1)
           in (CheckFreshness freshnessStep # tr, res)))"

text \<open>Validation of the policy, when one was found, and everything after it.\<close>

definition validationOnwards ::
    "domain \<Rightarrow> (string \<Rightarrow> jsnum) \<Rightarrow> world \<Rightarrow> SharedProof \<Rightarrow> PolicyLike option
       \<Rightarrow> step list \<times> (fatal + report)" where
  "validationOnwards d toNumber w sharedProof policy =
     (case policy of
        None \<Rightarrow> freshnessOnwards d toNumber w sharedProof None False
      | Some p \<Rightarrow>
          (case validatePolicy d p of
             Inl e \<Rightarrow> ([ValidatePolicy], Inl e)
           | Inr findings \<Rightarrow>
               (let (tr, res) = freshnessOnwards d toNumber w sharedProof (Some p) True
                in (ValidatePolicy # tr, res))))"

text \<open>
  \<open>verifySharedProof\<close>, the same in both verifiers but for the helpers of the domain: the
  steps that ran, and the exit (\<open>Inl\<close>) or the report.
\<close>

definition verifySharedProof ::
    "domain \<Rightarrow> (string \<Rightarrow> jsnum) \<Rightarrow> world \<Rightarrow> string \<Rightarrow> step list \<times> (fatal + report)" where
  "verifySharedProof d toNumber w sharedProofId =
     (case getSharedProof w sharedProofId of
        Inl e \<Rightarrow> ([FetchSharedProof], Inl (Uncaught e))
      | Inr sharedProof \<Rightarrow>
          if revokedAt sharedProof \<noteq> None then ([FetchSharedProof], Inl SharedProofRevoked)
          else if (case expiresAt sharedProof of
                     None \<Rightarrow> False
                   | Some t \<Rightarrow> t < nowAtExpiryCheck w)
          then ([FetchSharedProof], Inl SharedProofExpired)
          else
            (case policyId (proveJob sharedProof) of
               None \<Rightarrow> ([FetchSharedProof], Inl NoPolicyAssociated)
             | Some pid \<Rightarrow>
                 if pid = [] then ([FetchSharedProof], Inl NoPolicyAssociated)
                 else
                   (case resolveSharedPolicy w sharedProof pid of
                      (tr, Inl e) \<Rightarrow> (FetchSharedProof # GetPolicySpecification # tr, Inl e)
                    | (tr, Inr policy) \<Rightarrow>
                        (let (tr', res) = validationOnwards d toNumber w sharedProof policy
                         in (FetchSharedProof # GetPolicySpecification # tr @ tr', res)))))"

section \<open>Sample policies\<close>

text \<open>
  A credit policy as the credit verifier expects it, with the subject type left open, and
  a vehicle-risk policy with the band table of its \<open>riskBand\<close> output left open.
\<close>

definition credit_policy :: "string \<Rightarrow> PolicyLike" where
  "credit_policy st =
     \<lparr>policy_id = ''bind.demo.credit-score'', version = ''0.1.0'', metadata = None,
      subject = \<lparr>subject_type = st\<rparr>,
      outputs = [\<lparr>name = ''approved'', output_type = ''boolean'',
                  derive = \<lparr>kind = ''PASS_FAIL'', bands = None\<rparr>\<rparr>],
      disclosure = Some \<lparr>exposeClaims = Some [''approved'']\<rparr>,
      validity = Some \<lparr>ttl = Some ''P30D''\<rparr>\<rparr>"

definition risk_policy :: "band list option \<Rightarrow> PolicyLike" where
  "risk_policy bs =
     \<lparr>policy_id = ''bind.mobility.basicriskband'', version = ''0.1.0'', metadata = None,
      subject = \<lparr>subject_type = ''vehicle''\<rparr>,
      outputs = [\<lparr>name = ''riskBand'', output_type = ''enum'',
                  derive = \<lparr>kind = ''BAND'', bands = bs\<rparr>\<rparr>],
      disclosure = Some \<lparr>exposeClaims = Some [''riskBand'']\<rparr>,
      validity = Some \<lparr>ttl = Some ''P90D''\<rparr>\<rparr>"

text \<open>A vehicle-risk policy whose \<open>riskBand\<close> output is its second output.\<close>

definition two_output_policy :: PolicyLike where
  "two_output_policy =
     \<lparr>policy_id = ''bind.mobility.basicriskband'', version = ''0.2.0'', metadata = None,
      subject = \<lparr>subject_type = ''vehicle''\<rparr>,
      outputs = [\<lparr>name = ''dataQuality'', output_type = ''enum'',
                  derive = \<lparr>kind = ''BAND'',
                            bands = Some [\<lparr>label = ''SPARSE''\<rparr>, \<lparr>label = ''DENSE''\<rparr>]\<rparr>\<rparr>,
                 \<lparr>name = ''riskBand'', output_type = ''enum'',
                  derive = \<lparr>kind = ''BAND'',
                            bands = Some [\<lparr>label = ''HIGH''\<rparr>, \<lparr>label = ''MEDIUM''\<rparr>,
                                          \<lparr>label = ''LOW''\<rparr>]\<rparr>\<rparr>],
      disclosure = Some \<lparr>exposeClaims = Some [''riskBand'']\<rparr>,
      validity = Some \<lparr>ttl = Some ''P90D''\<rparr>\<rparr>"

text \<open>The sample credit policy with a validity of one's choice.\<close>

definition policy_with_ttl :: "string option \<Rightarrow> PolicyLike" where
  "policy_with_ttl t = (credit_policy ''individual'')\<lparr>validity := Some \<lparr>ttl = t\<rparr>\<rparr>"

section \<open>A sample shared proof\<close>

text \<open>
  A shared proof with a revocation time, an expiry time, a policy id and an embedded policy
  of one's choice, and a client that returns it, knows no policy, issues a credential and
  verifies it with the claim \<open>riskBand = 2\<close>; both readings of the clock give \<open>now\<close>.
\<close>

definition sample_shared_proof ::
    "timestamp option \<Rightarrow> timestamp option \<Rightarrow> string option \<Rightarrow> PolicyLike option \<Rightarrow> SharedProof" where
  "sample_shared_proof revoked expires pid spec =
     \<lparr>proveJobId = ''job-1'', sharingOrgId = ''org-prover'', createdAt = 1700000000000,
      share_note = None, revokedAt = revoked, expiresAt = expires, policySpec = spec,
      proveJob = \<lparr>circuitName = ''basicriskband'', policyId = pid,
                  completedAt = Some 1700000000000\<rparr>\<rparr>"

definition sample_world :: "SharedProof \<Rightarrow> timestamp \<Rightarrow> world" where
  "sample_world sp now =
     \<lparr>getSharedProof = (\<lambda>i. Inr sp),
      getPolicy = (\<lambda>i. Inr None),
      listPolicies = Inr [],
      issueProofCredential = (\<lambda>i. Inr \<lparr>credentialId = ''cred-1'', format = ''compact'',
                                        issuedAt = ''2023-11-15T00:00:00Z'', jwt = ''jwt-1''\<rparr>),
      verifyCredential = (\<lambda>j. Inr \<lparr>valid = True, issuer = ''bind'', credential_subject = None,
                                    error_message = None,
                                    verified_claims = [(''riskBand'', JNum (Integer 2))]\<rparr>),
      nowAtExpiryCheck = now, nowAtFreshness = now\<rparr>"

section \<open>Properties\<close>

subsection \<open>Policy validation\<close>

lemma startsWith_iff: "startsWith s p = (\<exists>rest. s = p @ rest)"
proof
  assume "startsWith s p"
  then have "s = p @ drop (length p) s"
    unfolding startsWith_def by (metis append_take_drop_id)
  then show "\<exists>rest. s = p @ rest" ..
next
  assume "\<exists>rest. s = p @ rest"
  then show "startsWith s p" unfolding startsWith_def by auto
qed

lemma validatePolicy_risk_version:
  "(validatePolicy_risk p = Inl (UnsupportedVersion v))
     = (v = version p \<and> \<not> startsWith (version p) ''0.'')"
  unfolding validatePolicy_risk_def Let_def
  by (auto split: option.splits)

lemma validatePolicy_credit_version:
  "(validatePolicy_credit p = Inl (UnsupportedVersion v))
     = (v = version p \<and> \<not> startsWith (version p) ''0.'')"
  unfolding validatePolicy_credit_def Let_def
  by (auto split: option.splits)

text \<open>
  Claim C6. In both domains the validator exits with the unsupported-version error exactly
  for the policies whose version does not begin with \<open>0.\<close>: a version with that prefix is
  never rejected for its version, every other version is, and the error carries the
  version.
\<close>

theorem version_acceptability:
  "(validatePolicy d p = Inl (UnsupportedVersion (version p)))
     = (\<not> (\<exists>rest. version p = ''0.'' @ rest))
   \<and> (\<exists>v. validatePolicy d p = Inl (UnsupportedVersion v))
     = (\<not> (\<exists>rest. version p = ''0.'' @ rest))"
  by (cases d)
    (simp_all add: validatePolicy_risk_version validatePolicy_credit_version startsWith_iff)

text \<open>
  Claim C3 at the credit validator. Two policies that differ in nothing but the subject
  type, \<open>vehicle\<close> and \<open>individual\<close>, both pass it, the subject type going into the findings:
  whatever type the credit domain expects, one of the two does not match it. The
  vehicle-risk validator rejects the second one for its subject.
\<close>

theorem credit_validator_ignores_subject:
  "validatePolicy_credit (credit_policy ''vehicle'') =
     Inr [''Version: 0.1.0'', ''Subject type: vehicle'',
          ''Has '' @ quoted ''approved'' @ '' output (boolean)'',
          ''Uses PASS_FAIL derivation'', ''Approval status is disclosed'']
   \<and> validatePolicy_credit (credit_policy ''individual'') =
     Inr [''Version: 0.1.0'', ''Subject type: individual'',
          ''Has '' @ quoted ''approved'' @ '' output (boolean)'',
          ''Uses PASS_FAIL derivation'', ''Approval status is disclosed'']
   \<and> validatePolicy_risk (credit_policy ''individual'') = Inl (UnexpectedSubject ''individual'')"
  by (simp add: validatePolicy_credit_def validatePolicy_risk_def credit_policy_def
      startsWith_def isDisclosed_def Let_def)

text \<open>
  Claim C8, as the validator behaves. A policy with an accepted version, the subject type
  \<open>vehicle\<close> and a \<open>riskBand\<close> output of derivation kind \<open>BAND\<close> passes validation
  whatever its band table is. The findings record the derivation kind and, when the table
  is present, its labels in order (for an empty table an empty list of labels); when the
  table is absent they record nothing about it.
\<close>

theorem band_table_recorded_when_present:
  assumes "startsWith (version p) ''0.''" and "subject_type (subject p) = ''vehicle''"
    and "find (\<lambda>out. name out = ''riskBand'') (outputs p) = Some out"
    and "kind (derive out) = ''BAND''"
  shows "validatePolicy_risk p =
           Inr ([''Version: '' @ version p, ''Subject type: vehicle'',
                 ''Has '' @ quoted ''riskBand'' @ '' output ('' @ output_type out @ '')'',
                 ''Uses BAND derivation'']
                @ (case bands (derive out) of
                     None \<Rightarrow> []
                   | Some bs \<Rightarrow> [''Risk bands: '' @ join_with '', '' (map label bs)])
                @ (if isDisclosed p ''riskBand'' then [''Risk band is disclosed''] else []))"
proof -
  have "name out = ''riskBand''" using assms(3) by (auto simp: find_Some_iff)
  then show ?thesis
    using assms unfolding validatePolicy_risk_def Let_def
    by (simp split: option.splits)
qed

text \<open>An instance with the three usual bands, and one without a band table.\<close>

theorem band_table_recorded_when_present_witness:
  "validatePolicy_risk (risk_policy (Some [\<lparr>label = ''HIGH''\<rparr>, \<lparr>label = ''MEDIUM''\<rparr>, \<lparr>label = ''LOW''\<rparr>])) =
     Inr [''Version: 0.1.0'', ''Subject type: vehicle'',
          ''Has '' @ quoted ''riskBand'' @ '' output (enum)'', ''Uses BAND derivation'',
          ''Risk bands: HIGH, MEDIUM, LOW'', ''Risk band is disclosed'']
   \<and> validatePolicy_risk (risk_policy None) =
     Inr [''Version: 0.1.0'', ''Subject type: vehicle'',
          ''Has '' @ quoted ''riskBand'' @ '' output (enum)'', ''Uses BAND derivation'',
          ''Risk band is disclosed'']"
  using band_table_recorded_when_present [of "risk_policy (Some [\<lparr>label = ''HIGH''\<rparr>, \<lparr>label = ''MEDIUM''\<rparr>, \<lparr>label = ''LOW''\<rparr>])"
          "\<lparr>name = ''riskBand'', output_type = ''enum'', derive = \<lparr>kind = ''BAND'', bands = Some [\<lparr>label = ''HIGH''\<rparr>, \<lparr>label = ''MEDIUM''\<rparr>, \<lparr>label = ''LOW''\<rparr>]\<rparr>\<rparr>"]
        band_table_recorded_when_present [of "risk_policy None"
          "\<lparr>name = ''riskBand'', output_type = ''enum'', derive = \<lparr>kind = ''BAND'', bands = None\<rparr>\<rparr>"]
  by (simp add: risk_policy_def startsWith_def isDisclosed_def)

text \<open>
  Claim C8 as stated fails: the sample policy passes validation with its band table absent
  and with its band table empty.
\<close>

theorem band_table_optional_counterexample:
  "validatePolicy_risk (risk_policy None) =
     Inr [''Version: 0.1.0'', ''Subject type: vehicle'',
          ''Has '' @ quoted ''riskBand'' @ '' output (enum)'', ''Uses BAND derivation'',
          ''Risk band is disclosed'']
   \<and> validatePolicy_risk (risk_policy (Some [])) =
     Inr [''Version: 0.1.0'', ''Subject type: vehicle'',
          ''Has '' @ quoted ''riskBand'' @ '' output (enum)'', ''Uses BAND derivation'',
          ''Risk bands: '', ''Risk band is disclosed'']"
  by (simp add: validatePolicy_risk_def risk_policy_def startsWith_def isDisclosed_def Let_def)

subsection \<open>Freshness\<close>

lemma issueAndReport_steps: "fst (issueAndReport d tn w jobId policy n) \<noteq> []"
  by (simp add: issueAndReport_def split: sum.splits)

lemma freshnessOnwards_expired:
  "(freshnessOnwards d tn w sp policy validated
      = ([CheckFreshness (if validated then 4 else 3)], Inl ProofExpired))
   = (\<not> le_double (ageDays (nowAtFreshness w) (provedAt (completedAt (proveJob sp)) (createdAt sp)))
          (ttlDays d policy))"
  using issueAndReport_steps [of d tn w "proveJobId sp" policy "Suc (if validated then 4 else 3)"]
  by (auto simp: freshnessOnwards_def checkFreshness_def Let_def split: prod.splits)

lemma ageDays_whole_days: "ageDays (t + n * (24 * 60 * 60 * 1000)) t = n"
  by (simp add: ageDays_def)

lemma ttlDays_default: "ttlDays d None = Finite (defaultTtlDays d)"
  by (cases d)
    (simp_all add: ttlDays_def policyTtl_def isoMatch_def isDigit_def parseInt10_def mathInt_def
      digitVal_def roundToDouble_def)

text \<open>
  Claim C4. In both domains the freshness check passes exactly when the age in whole days
  is at most the resolved validity, and exits with the expiry error otherwise; the
  comparison is the one of integers, and any age is within an infinite validity. A proof
  made exactly as many days ago as the validity allows is fresh, one made a day earlier is
  expired, whether the time of the proof is the completion time or the fallback. In the
  run on a shared proof the freshness step is the last step and the run ends with the
  expiry error exactly when the age exceeds the validity.
\<close>

theorem freshness_boundary:
  "(checkFreshness d now completed fallbackDate policy = Inr ())
     = le_double (ageDays now (provedAt completed fallbackDate)) (ttlDays d policy)
   \<and> (checkFreshness d now completed fallbackDate policy = Inl ProofExpired)
     = (\<not> le_double (ageDays now (provedAt completed fallbackDate)) (ttlDays d policy))
   \<and> le_double age (Finite ttl') = (age \<le> ttl')
   \<and> (\<not> le_double age (Finite ttl')) = (ttl' < age)
   \<and> le_double age PosInfinity
   \<and> ageDays (t + n * (24 * 60 * 60 * 1000)) t = n
   \<and> (ttlDays d policy = Finite n \<longrightarrow>
         checkFreshness d (t + n * 86400000) (Some t) fallbackDate policy = Inr ()
         \<and> checkFreshness d (t + (n + 1) * 86400000) (Some t) fallbackDate policy
             = Inl ProofExpired
         \<and> checkFreshness d (t + n * 86400000) None t policy = Inr ()
         \<and> checkFreshness d (t + (n + 1) * 86400000) None t policy = Inl ProofExpired)
   \<and> (freshnessOnwards d tn w sp policy validated
         = ([CheckFreshness (if validated then 4 else 3)], Inl ProofExpired))
       = (\<not> le_double
              (ageDays (nowAtFreshness w) (provedAt (completedAt (proveJob sp)) (createdAt sp)))
              (ttlDays d policy))"
proof -
  have "(checkFreshness d now completed fallbackDate policy = Inr ())
          = le_double (ageDays now (provedAt completed fallbackDate)) (ttlDays d policy)"
    and "(checkFreshness d now completed fallbackDate policy = Inl ProofExpired)
          = (\<not> le_double (ageDays now (provedAt completed fallbackDate)) (ttlDays d policy))"
    by (auto simp: checkFreshness_def)
  moreover have "le_double age (Finite ttl') = (age \<le> ttl')"
    "(\<not> le_double age (Finite ttl')) = (ttl' < age)" "le_double age PosInfinity"
    by auto
  moreover have "ageDays (t + n * (24 * 60 * 60 * 1000)) t = n"
    by (rule ageDays_whole_days)
  moreover have "ttlDays d policy = Finite n \<longrightarrow>
         checkFreshness d (t + n * 86400000) (Some t) fallbackDate policy = Inr ()
         \<and> checkFreshness d (t + (n + 1) * 86400000) (Some t) fallbackDate policy
             = Inl ProofExpired
         \<and> checkFreshness d (t + n * 86400000) None t policy = Inr ()
         \<and> checkFreshness d (t + (n + 1) * 86400000) None t policy = Inl ProofExpired"
    by (simp add: checkFreshness_def ageDays_def provedAt_def)
  ultimately show ?thesis
    using freshnessOnwards_expired [of d tn w sp policy validated] by simp
qed

text \<open>
  The credit verifier without a policy, 30 days of validity: a proof of 30 days ago is
  fresh, a proof of 31 days ago is expired.
\<close>

theorem freshness_boundary_witness:
  "checkFreshness Credit (1700000000000 + 30 * 86400000) (Some 1700000000000) 0 None = Inr ()
   \<and> checkFreshness Credit (1700000000000 + (30 + 1) * 86400000) (Some 1700000000000) 0 None
       = Inl ProofExpired
   \<and> checkFreshness Credit (1700000000000 + 30 * 86400000) None 1700000000000 None = Inr ()
   \<and> checkFreshness Credit (1700000000000 + (30 + 1) * 86400000) None 1700000000000 None
       = Inl ProofExpired"
proof -
  have h: "ttlDays Credit None = Finite 30"
    using ttlDays_default [of Credit] by simp
  show ?thesis
    using freshness_boundary [where d = Credit and policy = None and n = 30
            and t = 1700000000000 and fallbackDate = 0] h
    by blast
qed

subsection \<open>Validity of a policy\<close>

lemma digit_cases: "k < 10 \<Longrightarrow> k = 0 \<or> k = 1 \<or> k = 2 \<or> k = 3 \<or> k = 4 \<or> k = 5 \<or> k = 6 \<or> k = 7 \<or> k = 8 \<or> k = (9::nat)"
  by arith

lemma digitVal_digit_char: "k < 10 \<Longrightarrow> digitVal (digit_char k) = k"
  using digit_cases [of k] by (auto simp: digitVal_def digit_char_def)

lemma isDigit_digit_char: "k < 10 \<Longrightarrow> isDigit (digit_char k)"
  using digit_cases [of k] by (auto simp: isDigit_def digit_char_def)

lemma isDigit_digitVal: "isDigit c \<Longrightarrow> digitVal c < 10 \<and> digit_char (digitVal c) = c"
  by (auto simp: isDigit_def digitVal_def digit_char_def)

lemma digit_char_0: "digit_char 0 = CHR ''0''"
  by (simp add: digit_char_def)

lemma isDigit_not_P: "isDigit c \<Longrightarrow> c \<noteq> CHR ''P'' \<and> c \<noteq> CHR ''p'' \<and> c \<noteq> CHR ''D'' \<and> c \<noteq> CHR ''d''"
  by (auto simp: isDigit_def)

lemma mathInt_snoc: "mathInt (xs @ [c]) = mathInt xs * 10 + digitVal c"
  by (simp add: mathInt_def)

lemma mathInt_show_nat: "mathInt (show_nat n) = n"
proof (induction n rule: show_nat.induct)
  case (1 n)
  show ?case
  proof (cases "n < 10")
    case True
    then show ?thesis
      by (simp add: show_nat.simps [of n] mathInt_def digitVal_digit_char)
  next
    case False
    then have "mathInt (show_nat n) = mathInt (show_nat (n div 10)) * 10 + digitVal (digit_char (n mod 10))"
      by (simp add: show_nat.simps [of n] mathInt_snoc)
    also have "\<dots> = (n div 10) * 10 + n mod 10"
      using 1 False by (simp add: digitVal_digit_char)
    finally show ?thesis by simp
  qed
qed

lemma show_nat_digits: "list_all isDigit (show_nat n) \<and> show_nat n \<noteq> []"
proof (induction n rule: show_nat.induct)
  case (1 n)
  show ?case
  proof (cases "n < 10")
    case True
    then show ?thesis by (simp add: show_nat.simps [of n] isDigit_digit_char)
  next
    case False
    then show ?thesis using 1 by (simp add: show_nat.simps [of n] isDigit_digit_char)
  qed
qed

lemma mathInt_zeros: "mathInt (replicate k CHR ''0'' @ xs) = mathInt xs"
proof -
  have z: "mathInt (replicate k CHR ''0'') = 0"
  proof (induction k)
    case 0
    then show ?case by (simp add: mathInt_def)
  next
    case (Suc k)
    have "replicate (Suc k) CHR ''0'' = replicate k CHR ''0'' @ [CHR ''0'']"
      by (simp add: replicate_append_same)
    then have "mathInt (replicate (Suc k) CHR ''0'')
                 = mathInt (replicate k CHR ''0'') * 10 + digitVal CHR ''0''"
      by (simp only: mathInt_snoc)
    then show ?case using Suc by (simp add: digitVal_def)
  qed
  have "mathInt (replicate k CHR ''0'' @ xs)
          = foldl (\<lambda>acc c. acc * 10 + digitVal c) (mathInt (replicate k CHR ''0'')) xs"
    by (simp add: mathInt_def)
  also have "\<dots> = foldl (\<lambda>acc c. acc * 10 + digitVal c) 0 xs"
    by (simp only: z)
  finally show ?thesis by (simp add: mathInt_def)
qed

lemma zeros_digits: "list_all isDigit (replicate k CHR ''0'')"
  by (induction k) (simp_all add: isDigit_def)

lemma show_nat_mathInt:
  "list_all isDigit ds \<Longrightarrow> ds \<noteq> [] \<Longrightarrow> hd ds \<noteq> CHR ''0'' \<Longrightarrow> show_nat (mathInt ds) = ds"
proof (induction ds rule: rev_induct)
  case Nil
  then show ?case by simp
next
  case (snoc c xs)
  have c: "isDigit c" using snoc.prems(1) by simp
  show ?case
  proof (cases "xs = []")
    case True
    then show ?thesis
      using isDigit_digitVal [OF c]
      by (simp add: mathInt_def show_nat.simps [of "digitVal c"])
  next
    case False
    then have hd: "hd xs \<noteq> CHR ''0''" using snoc.prems(3) by simp
    have ih: "show_nat (mathInt xs) = xs"
      using snoc.IH snoc.prems(1) False hd by simp
    have pos: "mathInt xs \<noteq> 0"
    proof
      assume "mathInt xs = 0"
      then have "xs = show_nat 0" using ih by simp
      then show False using hd by (simp add: show_nat.simps [of 0] digit_char_0)
    qed
    let ?v = "mathInt xs * 10 + digitVal c"
    have dv: "digitVal c < 10" using isDigit_digitVal [OF c] by simp
    have "\<not> ?v < 10" using pos by simp
    then have "show_nat ?v = show_nat (?v div 10) @ [digit_char (?v mod 10)]"
      by (subst show_nat.simps) simp
    also have "?v div 10 = mathInt xs" using dv by simp
    also have "?v mod 10 = digitVal c" using dv by simp
    finally show ?thesis
      using ih isDigit_digitVal [OF c] by (simp add: mathInt_snoc)
  qed
qed

lemma digits_numeral:
  "list_all isDigit ds \<Longrightarrow> ds \<noteq> [] \<Longrightarrow> \<exists>k n. ds = replicate k CHR ''0'' @ show_nat n"
proof (induction ds)
  case Nil
  then show ?case by simp
next
  case (Cons c cs)
  show ?case
  proof (cases "c = CHR ''0''")
    case False
    then have "show_nat (mathInt (c # cs)) = c # cs"
      using show_nat_mathInt [of "c # cs"] Cons.prems by simp
    then have "c # cs = replicate 0 CHR ''0'' @ show_nat (mathInt (c # cs))" by simp
    then show ?thesis by blast
  next
    case True
    show ?thesis
    proof (cases "cs = []")
      case True
      with \<open>c = CHR ''0''\<close> have "c # cs = replicate 0 CHR ''0'' @ show_nat 0"
        by (simp add: show_nat.simps [of 0] digit_char_0)
      then show ?thesis by blast
    next
      case False
      then obtain k n where "cs = replicate k CHR ''0'' @ show_nat n"
        using Cons by auto
      with \<open>c = CHR ''0''\<close> have "c # cs = replicate (Suc k) CHR ''0'' @ show_nat n" by simp
      then show ?thesis by blast
    qed
  qed
qed

lemma isoMatch_Some:
  "(isoMatch s = Some g) =
     (\<exists>p e. s = p # g @ [e] \<and> (p = CHR ''P'' \<or> p = CHR ''p'') \<and> (e = CHR ''D'' \<or> e = CHR ''d'')
            \<and> g \<noteq> [] \<and> list_all isDigit g)"
proof
  assume a: "isoMatch s = Some g"
  then obtain c rest where s: "s = c # rest" by (cases s) (auto simp: isoMatch_def)
  from a s have c: "c = CHR ''P'' \<or> c = CHR ''p''" and l: "2 \<le> length rest"
    and e: "last rest = CHR ''D'' \<or> last rest = CHR ''d''"
    and d: "list_all isDigit (butlast rest)" and g: "g = butlast rest"
    by (auto simp: isoMatch_def split: if_splits)
  from l have "rest \<noteq> []" by auto
  then have "rest = g @ [last rest]" using g by simp
  moreover have "g \<noteq> []" using l g by (cases rest rule: rev_cases) auto
  ultimately show "\<exists>p e. s = p # g @ [e] \<and> (p = CHR ''P'' \<or> p = CHR ''p'') \<and> (e = CHR ''D'' \<or> e = CHR ''d'')
            \<and> g \<noteq> [] \<and> list_all isDigit g"
    using s c e d g by metis
next
  assume "\<exists>p e. s = p # g @ [e] \<and> (p = CHR ''P'' \<or> p = CHR ''p'') \<and> (e = CHR ''D'' \<or> e = CHR ''d'')
            \<and> g \<noteq> [] \<and> list_all isDigit g"
  then obtain p e where s: "s = p # g @ [e]" and p: "p = CHR ''P'' \<or> p = CHR ''p''"
    and e: "e = CHR ''D'' \<or> e = CHR ''d''" and g: "g \<noteq> []" "list_all isDigit g" by blast
  have "2 \<le> length (g @ [e])" using g(1) by (cases g) auto
  then show "isoMatch s = Some g"
    using s p e g by (auto simp: isoMatch_def)
qed

lemma simpleMatch_Some:
  "(simpleMatch s = Some g) =
     (\<exists>e. s = g @ [e] \<and> (e = CHR ''D'' \<or> e = CHR ''d'') \<and> g \<noteq> [] \<and> list_all isDigit g)"
proof
  assume a: "simpleMatch s = Some g"
  then have l: "2 \<le> length s" and e: "last s = CHR ''d'' \<or> last s = CHR ''D''"
    and d: "list_all isDigit (butlast s)" and g: "g = butlast s"
    by (auto simp: simpleMatch_def split: if_splits)
  from l have "s \<noteq> []" by auto
  then have "s = g @ [last s]" using g by simp
  moreover have "g \<noteq> []" using l g by (cases s rule: rev_cases) auto
  ultimately show "\<exists>e. s = g @ [e] \<and> (e = CHR ''D'' \<or> e = CHR ''d'') \<and> g \<noteq> [] \<and> list_all isDigit g"
    using e d g by metis
next
  assume "\<exists>e. s = g @ [e] \<and> (e = CHR ''D'' \<or> e = CHR ''d'') \<and> g \<noteq> [] \<and> list_all isDigit g"
  then obtain e where s: "s = g @ [e]"
    and e: "e = CHR ''D'' \<or> e = CHR ''d''" and g: "g \<noteq> []" "list_all isDigit g" by blast
  have "2 \<le> length (g @ [e])" using g(1) by (cases g) auto
  then show "simpleMatch s = Some g"
    using s e g by (auto simp: simpleMatch_def)
qed

lemma isoMatch_simple_form:
  assumes "g \<noteq> []" "list_all isDigit g"
  shows "isoMatch (g @ [e]) = None"
proof (cases "isoMatch (g @ [e])")
  case None then show ?thesis .
next
  case (Some h)
  then obtain p e' where "g @ [e] = p # h @ [e']" and p: "p = CHR ''P'' \<or> p = CHR ''p''"
    unfolding isoMatch_Some by blast
  then have "hd g = p" using assms(1) by (cases g) auto
  moreover have "isDigit (hd g)" using assms by (cases g) auto
  ultimately show ?thesis using p isDigit_not_P by blast
qed

lemma ttlDays_iso:
  assumes "policyTtl policy = Some (p # g @ [e])" "p = CHR ''P'' \<or> p = CHR ''p''"
    "e = CHR ''D'' \<or> e = CHR ''d''" "g \<noteq> []" "list_all isDigit g"
  shows "ttlDays d policy = roundToDouble (mathInt g)"
proof -
  have "isoMatch (p # g @ [e]) = Some g" unfolding isoMatch_Some using assms by blast
  then show ?thesis using assms(1) by (simp add: ttlDays_def parseInt10_def)
qed

lemma ttlDays_simple:
  assumes "policyTtl policy = Some (g @ [e])"
    "e = CHR ''D'' \<or> e = CHR ''d''" "g \<noteq> []" "list_all isDigit g"
  shows "ttlDays d policy = roundToDouble (mathInt g)"
proof -
  have "simpleMatch (g @ [e]) = Some g" unfolding simpleMatch_Some using assms by blast
  then show ?thesis
    using assms(1) isoMatch_simple_form [OF assms(3,4)] by (simp add: ttlDays_def parseInt10_def)
qed

lemma ttlDays_no_policy_ttl:
  "policyTtl policy = None \<Longrightarrow> ttlDays d policy = Finite (defaultTtlDays d)"
  by (cases d)
    (simp_all add: ttlDays_def isoMatch_def isDigit_def parseInt10_def mathInt_def digitVal_def
      roundToDouble_def)

lemma ttlDays_other:
  assumes "policyTtl policy = Some s" "isoMatch s = None" "simpleMatch s = None"
  shows "ttlDays d policy = Finite (defaultTtlDays d)"
  using assms by (simp add: ttlDays_def)

lemma bitLength_2_53: "bitLength (2 ^ 53) = 54"
  by (simp add: bitLength.simps)

lemma bitLength_2_53_1: "bitLength 9007199254740993 = 54"
  by (simp add: bitLength.simps)

lemma roundToDouble_exact: "m \<le> 2 ^ 53 \<Longrightarrow> roundToDouble m = Finite (int m)"
proof (cases "m < 2 ^ 53")
  case True
  then show ?thesis by (simp add: roundToDouble_def)
next
  case False
  assume "m \<le> 2 ^ 53"
  with False have m: "m = 2 ^ 53" by simp
  show ?thesis
    unfolding m roundToDouble_def Let_def bitLength_2_53 by simp
qed

lemma roundToDouble_2_53_1: "roundToDouble 9007199254740993 = Finite 9007199254740992"
  by (simp add: roundToDouble_def bitLength_2_53_1)

lemma numeral_digits: "list_all isDigit (replicate k CHR ''0'' @ show_nat n) \<and> replicate k CHR ''0'' @ show_nat n \<noteq> []"
  using show_nat_digits [of n] zeros_digits [of k] by simp

text \<open>
  Claim C5, within the numbers a double holds. Let the validity string of the policy be a
  \<open>P\<close> or \<open>p\<close>, then digits, then a \<open>D\<close> or \<open>d\<close>, or digits followed by a \<open>D\<close> or \<open>d\<close>, the
  digits being the decimal numeral of \<open>n\<close> after any number of zeros; every non-empty
  sequence of digits is of that kind. Then the resolved validity is the double nearest to
  \<open>n\<close>, in both domains, which is \<open>n\<close> itself whenever \<open>n\<close> is at most \<open>2^53\<close>. For a validity
  string of neither form, for a policy without validity string and without a policy, the
  resolved validity is the default of the domain: 90 days for vehicle risk, 30 days for
  credit.
\<close>

theorem ttl_parsing:
  assumes "p = CHR ''P'' \<or> p = CHR ''p''" and "e = CHR ''D'' \<or> e = CHR ''d''"
  shows "(policyTtl policy = Some (p # replicate k CHR ''0'' @ show_nat n @ [e])
            \<longrightarrow> ttlDays d policy = roundToDouble n
                \<and> (n \<le> 2 ^ 53 \<longrightarrow> ttlDays d policy = Finite (int n)))
       \<and> (policyTtl policy = Some (replicate k CHR ''0'' @ show_nat n @ [e])
            \<longrightarrow> ttlDays d policy = roundToDouble n
                \<and> (n \<le> 2 ^ 53 \<longrightarrow> ttlDays d policy = Finite (int n)))
       \<and> (list_all isDigit ds \<and> ds \<noteq> [] \<longrightarrow> (\<exists>k' n'. ds = replicate k' CHR ''0'' @ show_nat n'))
       \<and> (policyTtl policy = Some s
            \<and> \<not> (\<exists>p' ds' e'. s = p' # ds' @ [e'] \<and> (p' = CHR ''P'' \<or> p' = CHR ''p'')
                    \<and> (e' = CHR ''D'' \<or> e' = CHR ''d'') \<and> ds' \<noteq> [] \<and> list_all isDigit ds')
            \<and> \<not> (\<exists>ds' e'. s = ds' @ [e'] \<and> (e' = CHR ''D'' \<or> e' = CHR ''d'')
                    \<and> ds' \<noteq> [] \<and> list_all isDigit ds')
            \<longrightarrow> ttlDays d policy = Finite (defaultTtlDays d))
       \<and> (policyTtl policy = None \<longrightarrow> ttlDays d policy = Finite (defaultTtlDays d))
       \<and> ttlDays d None = Finite (defaultTtlDays d)
       \<and> defaultTtlDays VehicleRisk = 90 \<and> defaultTtlDays Credit = 30"
proof -
  let ?g = "replicate k CHR ''0'' @ show_nat n"
  have g: "?g \<noteq> []" "list_all isDigit ?g" using numeral_digits [of k n] by simp_all
  have v: "mathInt ?g = n" by (simp add: mathInt_zeros mathInt_show_nat)
  have 1: "policyTtl policy = Some (p # replicate k CHR ''0'' @ show_nat n @ [e])
             \<longrightarrow> ttlDays d policy = roundToDouble n
                 \<and> (n \<le> 2 ^ 53 \<longrightarrow> ttlDays d policy = Finite (int n))"
    using ttlDays_iso [OF _ assms g, of policy d] v roundToDouble_exact [of n] by simp
  have 2: "policyTtl policy = Some (replicate k CHR ''0'' @ show_nat n @ [e])
             \<longrightarrow> ttlDays d policy = roundToDouble n
                 \<and> (n \<le> 2 ^ 53 \<longrightarrow> ttlDays d policy = Finite (int n))"
    using ttlDays_simple [OF _ assms(2) g, of policy d] v roundToDouble_exact [of n] by simp
  have 3: "list_all isDigit ds \<and> ds \<noteq> [] \<longrightarrow> (\<exists>k' n'. ds = replicate k' CHR ''0'' @ show_nat n')"
    using digits_numeral by blast
  have 4: "policyTtl policy = Some s
            \<and> \<not> (\<exists>p' ds' e'. s = p' # ds' @ [e'] \<and> (p' = CHR ''P'' \<or> p' = CHR ''p'')
                    \<and> (e' = CHR ''D'' \<or> e' = CHR ''d'') \<and> ds' \<noteq> [] \<and> list_all isDigit ds')
            \<and> \<not> (\<exists>ds' e'. s = ds' @ [e'] \<and> (e' = CHR ''D'' \<or> e' = CHR ''d'')
                    \<and> ds' \<noteq> [] \<and> list_all isDigit ds')
            \<longrightarrow> ttlDays d policy = Finite (defaultTtlDays d)"
  proof
    assume h: "policyTtl policy = Some s
            \<and> \<not> (\<exists>p' ds' e'. s = p' # ds' @ [e'] \<and> (p' = CHR ''P'' \<or> p' = CHR ''p'')
                    \<and> (e' = CHR ''D'' \<or> e' = CHR ''d'') \<and> ds' \<noteq> [] \<and> list_all isDigit ds')
            \<and> \<not> (\<exists>ds' e'. s = ds' @ [e'] \<and> (e' = CHR ''D'' \<or> e' = CHR ''d'')
                    \<and> ds' \<noteq> [] \<and> list_all isDigit ds')"
    have "isoMatch s = None"
    proof (cases "isoMatch s")
      case (Some g') then show ?thesis using h unfolding isoMatch_Some by blast
    qed simp
    moreover have "simpleMatch s = None"
    proof (cases "simpleMatch s")
      case (Some g') then show ?thesis using h unfolding simpleMatch_Some by blast
    qed simp
    ultimately show "ttlDays d policy = Finite (defaultTtlDays d)"
      using h ttlDays_other by blast
  qed
  have 5: "policyTtl policy = None \<longrightarrow> ttlDays d policy = Finite (defaultTtlDays d)"
    using ttlDays_no_policy_ttl by blast
  have 6: "ttlDays d None = Finite (defaultTtlDays d)"
    by (rule ttlDays_default)
  have 7: "defaultTtlDays VehicleRisk = 90 \<and> defaultTtlDays Credit = 30"
    by simp
  show ?thesis using 1 2 3 4 5 6 7 by blast
qed

text \<open>
  The validities \<open>P045D\<close> and \<open>7d\<close>, the validity \<open>90 days\<close>, which has neither form, and a
  policy that states no validity.
\<close>

theorem ttl_parsing_witness:
  "ttlDays Credit (Some (policy_with_ttl (Some ''P045D''))) = Finite 45
   \<and> ttlDays VehicleRisk (Some (policy_with_ttl (Some ''7d''))) = Finite 7
   \<and> ttlDays VehicleRisk (Some (policy_with_ttl (Some ''90 days''))) = Finite 90
   \<and> ttlDays Credit (Some (policy_with_ttl None)) = Finite 30"
proof -
  have t: "policyTtl (Some (policy_with_ttl x)) = x" for x
    by (simp add: policyTtl_def policy_with_ttl_def)
  have n45: "show_nat 45 = ''45''" and n7: "show_nat 7 = ''7''"
    by (simp_all add: show_nat.simps digit_char_def)
  have P: "CHR ''P'' = CHR ''P'' \<or> CHR ''P'' = CHR ''p''"
    and D: "CHR ''D'' = CHR ''D'' \<or> CHR ''D'' = CHR ''d''"
    and d: "CHR ''d'' = CHR ''D'' \<or> CHR ''d'' = CHR ''d''"
    by simp_all
  have no_iso: "\<not> (\<exists>p' ds' e'. ''90 days'' = p' # ds' @ [e'] \<and> (p' = CHR ''P'' \<or> p' = CHR ''p'')
                    \<and> (e' = CHR ''D'' \<or> e' = CHR ''d'') \<and> ds' \<noteq> [] \<and> list_all isDigit ds')"
    by auto
  have no_simple: "\<not> (\<exists>ds' e'. ''90 days'' = ds' @ [e'] \<and> (e' = CHR ''D'' \<or> e' = CHR ''d'')
                    \<and> ds' \<noteq> [] \<and> list_all isDigit ds')"
  proof
    assume "\<exists>ds' e'. ''90 days'' = ds' @ [e'] \<and> (e' = CHR ''D'' \<or> e' = CHR ''d'')
                    \<and> ds' \<noteq> [] \<and> list_all isDigit ds'"
    then obtain ds' e' where h: "''90 days'' = ds' @ [e']" "e' = CHR ''D'' \<or> e' = CHR ''d''"
      by blast
    from h(1) have "last ''90 days'' = e'" by (metis last_snoc)
    then show False using h(2) by auto
  qed
  have 1: "ttlDays Credit (Some (policy_with_ttl (Some ''P045D''))) = Finite 45"
    using ttl_parsing [OF P D, of "Some (policy_with_ttl (Some ''P045D''))" 1 45 Credit]
    by (simp add: t n45 roundToDouble_def)
  have 2: "ttlDays VehicleRisk (Some (policy_with_ttl (Some ''7d''))) = Finite 7"
    using ttl_parsing [OF P d, of "Some (policy_with_ttl (Some ''7d''))" 0 7 VehicleRisk]
    by (simp add: t n7 roundToDouble_def)
  have 3: "ttlDays VehicleRisk (Some (policy_with_ttl (Some ''90 days''))) = Finite 90"
    using ttl_parsing [OF P D, of "Some (policy_with_ttl (Some ''90 days''))" 0 0 VehicleRisk "[]" "''90 days''"]
      no_iso no_simple
    by (simp add: t)
  have 4: "ttlDays Credit (Some (policy_with_ttl None)) = Finite 30"
    using ttl_parsing [OF P D, of "Some (policy_with_ttl None)" 0 0 Credit]
    by (simp add: t)
  show ?thesis using 1 2 3 4 by simp
qed

text \<open>
  Claim C5 as stated fails beyond \<open>2^53\<close>: the validities \<open>P9007199254740993D\<close> and
  \<open>9007199254740993d\<close> resolve to 9007199254740992 days, the nearest double.
\<close>

theorem ttl_parsing_beyond_doubles_counterexample:
  "ttlDays VehicleRisk (Some (policy_with_ttl (Some ''P9007199254740993D'')))
     = Finite 9007199254740992
   \<and> ttlDays Credit (Some (policy_with_ttl (Some ''9007199254740993d'')))
     = Finite 9007199254740992"
proof -
  have t: "policyTtl (Some (policy_with_ttl x)) = x" for x
    by (simp add: policyTtl_def policy_with_ttl_def)
  have v: "mathInt ''9007199254740993'' = 9007199254740993"
    by (simp add: mathInt_def digitVal_def)
  have 1: "ttlDays VehicleRisk (Some (policy_with_ttl (Some ''P9007199254740993D'')))
             = roundToDouble (mathInt ''9007199254740993'')"
    by (rule ttlDays_iso [where p = "CHR ''P''" and e = "CHR ''D''"]) (simp_all add: t isDigit_def)
  have 2: "ttlDays Credit (Some (policy_with_ttl (Some ''9007199254740993d'')))
             = roundToDouble (mathInt ''9007199254740993'')"
    by (rule ttlDays_simple [where e = "CHR ''d''"]) (simp_all add: t isDigit_def)
  show ?thesis
    unfolding 1 2 v by (simp add: roundToDouble_2_53_1)
qed

subsection \<open>Risk band\<close>

text \<open>
  Claim C1 at a policy whose \<open>riskBand\<close> output comes second. The validator accepts the
  policy and records the band table of the output named \<open>riskBand\<close> (HIGH, MEDIUM, LOW);
  \<open>resolveBandLabel\<close> decodes the claim values 0 and 1 with the table of the first
  output instead, to SPARSE and DENSE.
\<close>

theorem resolveBandLabel_reads_first_output:
  "validatePolicy_risk two_output_policy =
     Inr [''Version: 0.2.0'', ''Subject type: vehicle'',
          ''Has '' @ quoted ''riskBand'' @ '' output (enum)'', ''Uses BAND derivation'',
          ''Risk bands: HIGH, MEDIUM, LOW'', ''Risk band is disclosed'']
   \<and> map_option (\<lambda>out. map_option (map label) (bands (derive out)))
        (find (\<lambda>out. name out = ''riskBand'') (outputs two_output_policy))
       = Some (Some [''HIGH'', ''MEDIUM'', ''LOW''])
   \<and> resolveBandLabel toNumber [(''riskBand'', JNum (Integer 0))] (Some two_output_policy)
       = ''SPARSE''
   \<and> resolveBandLabel toNumber [(''riskBand'', JNum (Integer 1))] (Some two_output_policy)
       = ''DENSE''"
  by (simp add: validatePolicy_risk_def two_output_policy_def startsWith_def isDisclosed_def Let_def
       resolveBandLabel_def bandIndex_def riskBandClaim_def getClaim_def firstOutputBands_def)

text \<open>
  Claim C10. When the band table of the policy's first output is too short for the index
  of the claim and the index is still below 3, the label is the one the built-in table
  HIGH, MEDIUM, LOW has at that index (LOW for index 2): the policy's table has no entry
  there, and the result is not the synthesized \<open>Band\<close> text.
\<close>

theorem default_table_gap:
  assumes "outputs p = out # rest" and "bands (derive out) = Some bs"
    and "bandIndex toNumber claims = Integer i"
    and "int (length bs) \<le> i" and "i < 3"
  shows "resolveBandLabel toNumber claims (Some p) = RISK_BANDS ! nat i
         \<and> arrayGet bs (Integer i) = None
         \<and> resolveBandLabel toNumber claims (Some p) \<noteq> ''Band '' @ numToString (Integer i)
         \<and> (i = 2 \<longrightarrow> resolveBandLabel toNumber claims (Some p) = ''LOW'')"
proof -
  have i0: "0 \<le> i" using assms(4) by linarith
  then have "nat i = 0 \<or> nat i = 1 \<or> nat i = 2" using assms(5) by linarith
  moreover have r: "resolveBandLabel toNumber claims (Some p) = RISK_BANDS ! nat i"
    using assms i0 by (simp add: resolveBandLabel_def firstOutputBands_def RISK_BANDS_def)
  ultimately show ?thesis using assms(4) by (auto simp: RISK_BANDS_def)
qed

text \<open>
  Index 2 against a policy table of two bands, as a number under \<open>riskBand\<close>, and against
  an empty table, as a string under \<open>outputValue\<close>.
\<close>

theorem default_table_gap_witness:
  "resolveBandLabel Number_decimal [(''riskBand'', JNum (Integer 2))]
      (Some (risk_policy (Some [\<lparr>label = ''SEVERE''\<rparr>, \<lparr>label = ''ELEVATED''\<rparr>]))) = ''LOW''
   \<and> resolveBandLabel Number_decimal [(''outputValue'', JStr ''2'')]
      (Some (risk_policy (Some []))) = ''LOW''"
proof -
  have a: "bandIndex Number_decimal [(''riskBand'', JNum (Integer 2))] = Integer 2"
    by (simp add: bandIndex_def riskBandClaim_def getClaim_def)
  have b: "bandIndex Number_decimal [(''outputValue'', JStr ''2'')] = Integer 2"
    by (simp add: bandIndex_def riskBandClaim_def getClaim_def Number_decimal_def isDigit_def
          parseInt10_def mathInt_def roundToDouble_def digitVal_def)
  have o1: "outputs (risk_policy bs) =
              \<lparr>name = ''riskBand'', output_type = ''enum'',
               derive = \<lparr>kind = ''BAND'', bands = bs\<rparr>\<rparr> # []" for bs
    by (simp add: risk_policy_def)
  have b1: "bands (derive \<lparr>name = ''riskBand'', output_type = ''enum'',
               derive = \<lparr>kind = ''BAND'', bands = Some bs\<rparr>\<rparr>) = Some bs" for bs
    by simp
  have l1: "int (length [\<lparr>label = ''SEVERE''\<rparr>, \<lparr>label = ''ELEVATED''\<rparr>]) \<le> 2"
    and l2: "int (length ([] :: band list)) \<le> 2" and l3: "(2::int) < 3"
    by simp_all
  show ?thesis
    using default_table_gap [OF o1 b1 a l1 l3] default_table_gap [OF o1 b1 b l2 l3]
    by (simp add: RISK_BANDS_def)
qed

subsection \<open>Approval\<close>

lemma isApproved_iff:
  "isApproved v = (v = JNum (Integer 1) \<or> v = JBool True \<or> v = JStr ''1'')"
  by (cases v) auto

lemma displayResults_credit_Cons:
  "displayResults_credit ((key, v) # claims) =
     (if key = ''approved'' \<or> key = ''outputValue''
      then ApprovalLine key (isApproved v) else PlainLine key v) # displayResults_credit claims"
  by (simp add: displayResults_credit_def)

lemma approval_line_iff:
  "(ApprovalLine key b \<in> set (displayResults_credit claims)) =
     ((key = ''approved'' \<or> key = ''outputValue'')
       \<and> (\<exists>v. (key, v) \<in> set claims \<and> isApproved v = b))"
proof (induction claims)
  case Nil
  then show ?case by (simp add: displayResults_credit_def)
next
  case (Cons kv claims)
  obtain k v where kv: "kv = (k, v)" by (cases kv)
  show ?case
    unfolding kv displayResults_credit_Cons using Cons.IH by auto
qed

text \<open>
  Claim C9, for the claims that are present. The credit verifier prints one line per
  entry of the claims, in order. An entry called \<open>approved\<close> or \<open>outputValue\<close> is printed
  as approved when its value is the number 1, the boolean true or the string \<open>1\<close>, and as
  not approved for every other value, among them 0, false, the string \<open>0\<close> and null; any
  other entry is printed as it is. So a claim has an approval line exactly when it is
  present under one of the two names: for an absent claim nothing is printed, neither
  approved nor not approved.
\<close>

theorem pass_fail_resolution:
  "isApproved v = (v = JNum (Integer 1) \<or> v = JBool True \<or> v = JStr ''1'')
   \<and> displayResults_credit [] = []
   \<and> displayResults_credit ((key, v) # claims) =
       (if key = ''approved'' \<or> key = ''outputValue''
        then ApprovalLine key (v = JNum (Integer 1) \<or> v = JBool True \<or> v = JStr ''1'')
        else PlainLine key v) # displayResults_credit claims
   \<and> (ApprovalLine key True \<in> set (displayResults_credit claims)) =
       ((key = ''approved'' \<or> key = ''outputValue'')
         \<and> ((key, JNum (Integer 1)) \<in> set claims \<or> (key, JBool True) \<in> set claims
             \<or> (key, JStr ''1'') \<in> set claims))
   \<and> (ApprovalLine key False \<in> set (displayResults_credit claims)) =
       ((key = ''approved'' \<or> key = ''outputValue'')
         \<and> (\<exists>u. (key, u) \<in> set claims
                \<and> u \<noteq> JNum (Integer 1) \<and> u \<noteq> JBool True \<and> u \<noteq> JStr ''1''))
   \<and> (\<exists>b. ApprovalLine key b \<in> set (displayResults_credit claims)) =
       ((key = ''approved'' \<or> key = ''outputValue'') \<and> key \<in> fst ` set claims)
   \<and> displayResults_credit [(''approved'', JNum (Integer 0))] = [ApprovalLine ''approved'' False]
   \<and> displayResults_credit [(''approved'', JBool False)] = [ApprovalLine ''approved'' False]
   \<and> displayResults_credit [(''approved'', JStr ''0'')] = [ApprovalLine ''approved'' False]
   \<and> displayResults_credit [(''outputValue'', JNull)] = [ApprovalLine ''outputValue'' False]"
proof -
  have 1: "displayResults_credit [] = []"
    by (simp add: displayResults_credit_def)
  have 2: "displayResults_credit ((key, v) # claims) =
       (if key = ''approved'' \<or> key = ''outputValue''
        then ApprovalLine key (v = JNum (Integer 1) \<or> v = JBool True \<or> v = JStr ''1'')
        else PlainLine key v) # displayResults_credit claims"
    by (simp add: displayResults_credit_Cons isApproved_iff)
  have 3: "(ApprovalLine key True \<in> set (displayResults_credit claims)) =
       ((key = ''approved'' \<or> key = ''outputValue'')
         \<and> ((key, JNum (Integer 1)) \<in> set claims \<or> (key, JBool True) \<in> set claims
             \<or> (key, JStr ''1'') \<in> set claims))"
    unfolding approval_line_iff isApproved_iff by auto
  have 4: "(ApprovalLine key False \<in> set (displayResults_credit claims)) =
       ((key = ''approved'' \<or> key = ''outputValue'')
         \<and> (\<exists>u. (key, u) \<in> set claims
                \<and> u \<noteq> JNum (Integer 1) \<and> u \<noteq> JBool True \<and> u \<noteq> JStr ''1''))"
    unfolding approval_line_iff isApproved_iff by auto
  have 5: "(\<exists>b. ApprovalLine key b \<in> set (displayResults_credit claims)) =
       ((key = ''approved'' \<or> key = ''outputValue'') \<and> key \<in> fst ` set claims)"
    unfolding approval_line_iff by force
  have 6: "displayResults_credit [(''approved'', JNum (Integer 0))]
             = [ApprovalLine ''approved'' False]"
    "displayResults_credit [(''approved'', JBool False)] = [ApprovalLine ''approved'' False]"
    "displayResults_credit [(''approved'', JStr ''0'')] = [ApprovalLine ''approved'' False]"
    "displayResults_credit [(''outputValue'', JNull)] = [ApprovalLine ''outputValue'' False]"
    by (simp_all add: displayResults_credit_def)
  show ?thesis
    using isApproved_iff [of v] 1 2 3 4 5 6 by blast
qed

text \<open>
  Claim C9 as stated fails for an absent claim: for claims that hold neither \<open>approved\<close>
  nor \<open>outputValue\<close> the credit verifier prints no approval line, so the absent claim is
  not resolved to the negative outcome (nor to the positive one).
\<close>

theorem absent_claim_no_outcome_counterexample:
  "displayResults_credit [(''issuer'', JStr ''bind'')] = [PlainLine ''issuer'' (JStr ''bind'')]
   \<and> ApprovalLine ''approved'' False \<notin> set (displayResults_credit [(''issuer'', JStr ''bind'')])
   \<and> ApprovalLine ''outputValue'' False
        \<notin> set (displayResults_credit [(''issuer'', JStr ''bind'')])
   \<and> displayResults_credit [] = []"
  by (simp add: displayResults_credit_def)

subsection \<open>Reference scorer\<close>

lemma expectedScore_prove_demo:
  "fst (expectedScore_prove inp) = expectedScore_demo inp"
  by (simp add: expectedScore_prove_def expectedScore_demo_def Let_def)

text \<open>
  Claim C2, as the scripts compute it. The reference scorer starts at the baseline 50, adds
  one bonus for each threshold that holds (25 for a mileage of at most 3000, 15 for a
  mileage of at most 5000, 10 for a maximal speed below 100), each independently of the
  others, and caps the sum at 100, in the demo script and in the prove-job script alike;
  the score lies between 50 and 100 and does not depend on the number of data points. A
  score of at least 71 is band LOW, one of at least 41 is band MEDIUM, anything lower is
  band HIGH. The sample inputs score 100 (band LOW), 75 and 50.
\<close>

theorem reference_scorer:
  "expectedScore_demo inp =
     min 100 (50 + (if mileage_90d inp \<le> 3000 then 25 else 0)
                 + (if mileage_90d inp \<le> 5000 then 15 else 0)
                 + (if speed_max inp < 100 then 10 else 0))
   \<and> fst (expectedScore_prove inp) = expectedScore_demo inp
   \<and> 50 \<le> expectedScore_demo inp \<and> expectedScore_demo inp \<le> 100
   \<and> expectedBand s = (if 71 \<le> s then ''LOW'' else if 41 \<le> s then ''MEDIUM'' else ''HIGH'')
   \<and> expectedScore_demo \<lparr>mileage_90d = 2500, data_points = 450, speed_max = 72\<rparr> = 100
   \<and> expectedBand 100 = ''LOW''
   \<and> expectedScore_demo \<lparr>mileage_90d = 4500, data_points = 300, speed_max = 85\<rparr> = 75
   \<and> expectedScore_demo \<lparr>mileage_90d = 7000, data_points = 500, speed_max = 110\<rparr> = 50"
  by (simp add: expectedScore_prove_demo expectedScore_demo_def expectedBand_def Let_def)

text \<open>
  The second and third sample of claim C2: mileage 4500 with maximal speed 85 earns the
  moderate-mileage and the speed bonus, 75 points and band LOW, not 65 and MEDIUM; mileage
  7000 with maximal speed 110 stays at the baseline, which the cut point 41 puts into band
  MEDIUM, not HIGH.
\<close>

theorem reference_scorer_samples_counterexample:
  "expectedScore_demo \<lparr>mileage_90d = 4500, data_points = 300, speed_max = 85\<rparr> = 75
   \<and> expectedBand (expectedScore_demo \<lparr>mileage_90d = 4500, data_points = 300, speed_max = 85\<rparr>)
       = ''LOW''
   \<and> fst (expectedScore_prove \<lparr>mileage_90d = 4500, data_points = 300, speed_max = 85\<rparr>) = 75
   \<and> expectedScore_demo \<lparr>mileage_90d = 7000, data_points = 500, speed_max = 110\<rparr> = 50
   \<and> expectedBand (expectedScore_demo \<lparr>mileage_90d = 7000, data_points = 500, speed_max = 110\<rparr>)
       = ''MEDIUM''"
  by (simp add: expectedScore_prove_def expectedScore_demo_def expectedBand_def Let_def)

subsection \<open>Shared proofs\<close>

text \<open>
  Claim C7. In both domains, once the shared proof is fetched: if it carries a revocation
  time, the run exits as revoked; otherwise, if its expiry time lies strictly before the
  clock, the run exits as expired; otherwise, if it has no policy id (or an empty one),
  the run exits as not associated with a policy. In each of the three cases the only step
  that ran is the fetch of the shared proof: no policy was looked for, fetched or
  validated, and freshness was not checked. When none of the cases applies, the step that
  gets the policy specification is the next to run.
\<close>

theorem shared_proof_preconditions:
  assumes "getSharedProof w sid = Inr sp"
  shows "(revokedAt sp \<noteq> None \<longrightarrow>
            verifySharedProof d tn w sid = ([FetchSharedProof], Inl SharedProofRevoked))
       \<and> (revokedAt sp = None \<and> (\<exists>t. expiresAt sp = Some t \<and> t < nowAtExpiryCheck w) \<longrightarrow>
            verifySharedProof d tn w sid = ([FetchSharedProof], Inl SharedProofExpired))
       \<and> (revokedAt sp = None \<and> \<not> (\<exists>t. expiresAt sp = Some t \<and> t < nowAtExpiryCheck w)
            \<and> (policyId (proveJob sp) = None \<or> policyId (proveJob sp) = Some []) \<longrightarrow>
            verifySharedProof d tn w sid = ([FetchSharedProof], Inl NoPolicyAssociated))
       \<and> (revokedAt sp \<noteq> None \<or> (\<exists>t. expiresAt sp = Some t \<and> t < nowAtExpiryCheck w)
            \<or> policyId (proveJob sp) = None \<longrightarrow>
            fst (verifySharedProof d tn w sid) = [FetchSharedProof]
            \<and> snd (verifySharedProof d tn w sid)
                 \<in> {Inl SharedProofRevoked, Inl SharedProofExpired, Inl NoPolicyAssociated})
       \<and> (revokedAt sp = None \<and> \<not> (\<exists>t. expiresAt sp = Some t \<and> t < nowAtExpiryCheck w)
            \<and> (\<exists>pid. policyId (proveJob sp) = Some pid \<and> pid \<noteq> []) \<longrightarrow>
            take 2 (fst (verifySharedProof d tn w sid)) = [FetchSharedProof, GetPolicySpecification])"
proof -
  have 1: "revokedAt sp \<noteq> None \<longrightarrow>
            verifySharedProof d tn w sid = ([FetchSharedProof], Inl SharedProofRevoked)"
    using assms by (simp add: verifySharedProof_def)
  have 2: "revokedAt sp = None \<and> (\<exists>t. expiresAt sp = Some t \<and> t < nowAtExpiryCheck w) \<longrightarrow>
            verifySharedProof d tn w sid = ([FetchSharedProof], Inl SharedProofExpired)"
    using assms by (auto simp: verifySharedProof_def)
  have 3: "revokedAt sp = None \<and> \<not> (\<exists>t. expiresAt sp = Some t \<and> t < nowAtExpiryCheck w)
            \<and> (policyId (proveJob sp) = None \<or> policyId (proveJob sp) = Some []) \<longrightarrow>
            verifySharedProof d tn w sid = ([FetchSharedProof], Inl NoPolicyAssociated)"
    using assms by (auto simp: verifySharedProof_def split: option.splits)
  have 4: "revokedAt sp \<noteq> None \<or> (\<exists>t. expiresAt sp = Some t \<and> t < nowAtExpiryCheck w)
            \<or> policyId (proveJob sp) = None \<longrightarrow>
            fst (verifySharedProof d tn w sid) = [FetchSharedProof]
            \<and> snd (verifySharedProof d tn w sid)
                 \<in> {Inl SharedProofRevoked, Inl SharedProofExpired, Inl NoPolicyAssociated}"
    using assms by (auto simp: verifySharedProof_def split: option.splits)
  have 5: "revokedAt sp = None \<and> \<not> (\<exists>t. expiresAt sp = Some t \<and> t < nowAtExpiryCheck w)
            \<and> (\<exists>pid. policyId (proveJob sp) = Some pid \<and> pid \<noteq> []) \<longrightarrow>
            take 2 (fst (verifySharedProof d tn w sid)) = [FetchSharedProof, GetPolicySpecification]"
    using assms
    by (auto simp: verifySharedProof_def split: option.splits prod.splits sum.splits)
  show ?thesis using 1 2 3 4 5 by blast
qed

text \<open>
  A revoked shared proof, an expired one, one without policy id whose expiry time is the
  present moment, and one that passes the three checks.
\<close>

theorem shared_proof_preconditions_witness:
  "verifySharedProof VehicleRisk Number_decimal
     (sample_world (sample_shared_proof (Some 1700000500000) None (Some ''bind.mobility.basicriskband'')
        (Some (risk_policy None))) 1700000900000) ''sp-1''
     = ([FetchSharedProof], Inl SharedProofRevoked)
   \<and> verifySharedProof Credit Number_decimal
     (sample_world (sample_shared_proof None (Some 1700000500000) (Some ''bind.demo.credit-score'')
        None) 1700000900000) ''sp-2''
     = ([FetchSharedProof], Inl SharedProofExpired)
   \<and> verifySharedProof Credit Number_decimal
     (sample_world (sample_shared_proof None (Some 1700000900000) None None) 1700000900000) ''sp-3''
     = ([FetchSharedProof], Inl NoPolicyAssociated)
   \<and> take 2 (fst (verifySharedProof VehicleRisk Number_decimal
     (sample_world (sample_shared_proof None None (Some ''bind.mobility.basicriskband'')
        (Some (risk_policy None))) 1700000900000) ''sp-4''))
     = [FetchSharedProof, GetPolicySpecification]"
proof -
  have g: "getSharedProof (sample_world sp now) i = Inr sp" for sp now i
    by (simp add: sample_world_def)
  have n: "nowAtExpiryCheck (sample_world sp now) = now" for sp now
    by (simp add: sample_world_def)
  show ?thesis
    using shared_proof_preconditions [OF g, of "sample_shared_proof (Some 1700000500000) None
              (Some ''bind.mobility.basicriskband'') (Some (risk_policy None))"
            VehicleRisk Number_decimal 1700000900000 "''sp-1''"]
          shared_proof_preconditions [OF g, of "sample_shared_proof None (Some 1700000500000)
              (Some ''bind.demo.credit-score'') None"
            Credit Number_decimal 1700000900000 "''sp-2''"]
          shared_proof_preconditions [OF g, of "sample_shared_proof None (Some 1700000900000)
              None None"
            Credit Number_decimal 1700000900000 "''sp-3''"]
          shared_proof_preconditions [OF g, of "sample_shared_proof None None
              (Some ''bind.mobility.basicriskband'') (Some (risk_policy None))"
            VehicleRisk Number_decimal 1700000900000 "''sp-4''"]
    by (simp add: n sample_shared_proof_def)
qed

end
